theory Spec2Isabelle
  imports Complex_Main
begin

section \<open>The Anthropic manifold pipeline\<close>

text \<open>
  A shallow embedding of \<^verbatim>\<open>pipelines/examples/anthropic_manifold_pipeline.py\<close>: the class
  \<^verbatim>\<open>Pipeline\<close> with its methods \<^verbatim>\<open>get_anthropic_models\<close>, \<^verbatim>\<open>pipelines\<close>,
  \<^verbatim>\<open>on_valves_update\<close>, \<^verbatim>\<open>pipe\<close>, \<^verbatim>\<open>stream_response\<close> and \<^verbatim>\<open>get_completion\<close>.
  Exceptions are values of a sum type, the object \<^verbatim>\<open>self\<close> and the calls issued to the
  vendor SDK are an explicit state, and the generator returned by \<^verbatim>\<open>stream_response\<close>
  is a suspended computation that runs only when it is resumed.
\<close>

subsection \<open>Python values\<close>

text \<open>
  The request body is a decoded JSON object, so its values are dynamically typed. A float
  is represented by the number its literal denotes; the adapter does no arithmetic on
  floats, it hands them on and tests them for truth.
\<close>

datatype pyval =
    PNone
  | PBool bool
  | PInt int
  | PFloat real
  | PStr string
  | PList "pyval list"
  | PDict "(string \<times> pyval) list"

type_synonym dict = "string \<rightharpoonup> pyval"

text \<open>Python's truth value of an object, as \<^verbatim>\<open>if\<close> tests it.\<close>

fun truthy :: "pyval \<Rightarrow> bool" where
  "truthy PNone = False"
| "truthy (PBool b) = b"
| "truthy (PInt n) = (n \<noteq> 0)"
| "truthy (PFloat r) = (r \<noteq> 0)"
| "truthy (PStr s) = (s \<noteq> [])"
| "truthy (PList xs) = (xs \<noteq> [])"
| "truthy (PDict kvs) = (kvs \<noteq> [])"

text \<open>\<^verbatim>\<open>d.get(k, default)\<close>: the value stored under the key, the default when the key is absent.\<close>

definition dict_get :: "dict \<Rightarrow> string \<Rightarrow> pyval \<Rightarrow> pyval" where
  "dict_get d k dflt = (case d k of None \<Rightarrow> dflt | Some v \<Rightarrow> v)"

subsection \<open>Exceptions\<close>

text \<open>
  The three exception classes that \<^verbatim>\<open>pipe\<close> names in its \<^verbatim>\<open>except\<close> clause, each with
  its message, and the exceptions that are none of them.
\<close>

datatype exn =
    RateLimitError string
  | APIStatusError string
  | APIConnectionError string
  | IndexError string
  | AttributeError string
  | ValidationError string
  | OtherException string string

text \<open>\<^verbatim>\<open>str(e)\<close>, as the f-string \<^verbatim>\<open>f"Error: {e}"\<close> formats the exception.\<close>

fun str :: "exn \<Rightarrow> string" where
  "str (RateLimitError m) = m"
| "str (APIStatusError m) = m"
| "str (APIConnectionError m) = m"
| "str (IndexError m) = m"
| "str (AttributeError m) = m"
| "str (ValidationError m) = m"
| "str (OtherException c m) = m"

text \<open>\<^verbatim>\<open>except (RateLimitError, APIStatusError, APIConnectionError)\<close>: does the clause match?\<close>

fun caught :: "exn \<Rightarrow> bool" where
  "caught (RateLimitError m) = True"
| "caught (APIStatusError m) = True"
| "caught (APIConnectionError m) = True"
| "caught e = False"

subsection \<open>The vendor SDK\<close>

text \<open>
  Modelled from the spec: the types of the vendor SDK (the package \<^verbatim>\<open>anthropic\<close>), which
  the source imports and which is no part of the repository. A response carries a list of
  content elements, each with a text; a stream delivers events tagged with a type, of
  which "content block start" carries a block with its initial text and "content block
  delta" carries the incremental text. The transport is a black box: what it answers is
  a parameter of every operation.
\<close>

record text_block =
  block_text :: string

record text_delta =
  delta_text :: string

record message =
  content :: "text_block list"

datatype chunk =
    MessageStartEvent
  | MessageDeltaEvent
  | MessageStopEvent
  | ContentBlockStartEvent text_block
  | ContentBlockDeltaEvent text_delta
  | ContentBlockStopEvent

text \<open>The attribute \<^verbatim>\<open>chunk.type\<close>.\<close>

fun chunk_type :: "chunk \<Rightarrow> string" where
  "chunk_type MessageStartEvent = ''message_start''"
| "chunk_type MessageDeltaEvent = ''message_delta''"
| "chunk_type MessageStopEvent = ''message_stop''"
| "chunk_type (ContentBlockStartEvent b) = ''content_block_start''"
| "chunk_type (ContentBlockDeltaEvent d) = ''content_block_delta''"
| "chunk_type ContentBlockStopEvent = ''content_block_stop''"

text \<open>
  The attributes \<^verbatim>\<open>chunk.content_block\<close> and \<^verbatim>\<open>chunk.delta\<close>: reading an attribute that
  the object does not have raises.
\<close>

fun content_block :: "chunk \<Rightarrow> exn + text_block" where
  "content_block (ContentBlockStartEvent b) = Inr b"
| "content_block c = Inl (AttributeError ''content_block'')"

fun delta :: "chunk \<Rightarrow> exn + text_delta" where
  "delta (ContentBlockDeltaEvent d) = Inr d"
| "delta c = Inl (AttributeError ''delta'')"

text \<open>
  The keyword arguments of \<^verbatim>\<open>client.messages.create\<close>. The keyword \<^verbatim>\<open>stream\<close> is
  \<open>None\<close> when the call does not pass it.
\<close>

record request =
  kw_model :: string
  kw_messages :: "pyval list"
  kw_max_tokens :: pyval
  kw_temperature :: pyval
  kw_top_k :: pyval
  kw_top_p :: pyval
  kw_stop_sequences :: pyval
  kw_stream :: "bool option"

text \<open>
  An open stream is iterated event by event; the transport may fail while the stream is
  read, which ends the iteration with an exception.
\<close>

datatype stream_item = Event chunk | Failure exn

text \<open>
  What the transport answers to a call made with a given API key: to a call without
  \<^verbatim>\<open>stream\<close> a message, to a call with \<^verbatim>\<open>stream=True\<close> an event stream, or an exception.
\<close>

record vendor =
  messages_create :: "string \<Rightarrow> request \<Rightarrow> exn + message"
  messages_create_stream :: "string \<Rightarrow> request \<Rightarrow> exn + stream_item list"

text \<open>The client handle \<^verbatim>\<open>Anthropic(api_key=...)\<close>.\<close>

record anthropic_client =
  api_key :: string

definition Anthropic :: "string \<Rightarrow> anthropic_client" where
  "Anthropic k = \<lparr>api_key = k\<rparr>"

subsection \<open>The pipeline object and the state\<close>

record valves =
  ANTHROPIC_API_KEY :: string

text \<open>The attributes \<^verbatim>\<open>type\<close>, \<^verbatim>\<open>id\<close>, \<^verbatim>\<open>name\<close>, \<^verbatim>\<open>valves\<close> and \<^verbatim>\<open>client\<close> of \<^verbatim>\<open>self\<close>.\<close>

record pipeline =
  pipeline_type :: string
  pipeline_id :: string
  pipeline_name :: string
  valves :: valves
  client :: anthropic_client

text \<open>
  The state that the methods run in: the pipeline object, and the calls issued to the
  vendor so far, each with the API key of the client that made it.
\<close>

record world =
  self :: pipeline
  calls :: "(string \<times> request) list"

text \<open>
  \<^verbatim>\<open>__init__\<close>: the key is read from the environment; the valves model requires a string,
  so a missing variable fails its validation.
\<close>

definition init :: "(string \<rightharpoonup> string) \<Rightarrow> exn + pipeline" where
  "init getenv =
     (case getenv ''ANTHROPIC_API_KEY'' of
        None \<Rightarrow> Inl (ValidationError ''ANTHROPIC_API_KEY'')
      | Some k \<Rightarrow>
          Inr \<lparr>pipeline_type = ''manifold'', pipeline_id = ''anthropic'',
               pipeline_name = ''Anthropic/'',
               valves = \<lparr>ANTHROPIC_API_KEY = k\<rparr>,
               client = Anthropic k\<rparr>)"

subsection \<open>The methods\<close>

definition get_anthropic_models :: "world \<Rightarrow> pyval list \<times> world" where
  "get_anthropic_models w =
     ([PDict [(''id'', PStr ''claude-3-haiku-20240307''), (''name'', PStr ''claude-3-haiku'')],
       PDict [(''id'', PStr ''claude-3-opus-20240229''), (''name'', PStr ''claude-3-opus'')],
       PDict [(''id'', PStr ''claude-3-sonnet-20240229''), (''name'', PStr ''claude-3-sonnet'')]],
      w)"

definition pipelines :: "world \<Rightarrow> pyval list \<times> world" where
  "pipelines w = get_anthropic_models w"

text \<open>
  \<^verbatim>\<open>on_valves_update\<close> is a coroutine function; this is the effect of awaiting it.
\<close>

definition on_valves_update :: "world \<Rightarrow> world" where
  "on_valves_update w =
     w\<lparr>self := (self w)\<lparr>client := Anthropic (ANTHROPIC_API_KEY (valves (self w)))\<rparr>\<rparr>"

text \<open>
  \<^verbatim>\<open>self.client.messages.create(...)\<close>: the call goes out with the key of the client that
  \<^verbatim>\<open>self\<close> holds at that moment, and is recorded whether or not it succeeds.
\<close>

definition create :: "vendor \<Rightarrow> world \<Rightarrow> request \<Rightarrow> (exn + message) \<times> world" where
  "create v w req =
     (messages_create v (api_key (client (self w))) req,
      w\<lparr>calls := calls w @ [(api_key (client (self w)), req)]\<rparr>)"

definition create_stream :: "vendor \<Rightarrow> world \<Rightarrow> request \<Rightarrow> (exn + stream_item list) \<times> world" where
  "create_stream v w req =
     (messages_create_stream v (api_key (client (self w))) req,
      w\<lparr>calls := calls w @ [(api_key (client (self w)), req)]\<rparr>)"

definition get_completion ::
  "vendor \<Rightarrow> world \<Rightarrow> string \<Rightarrow> pyval list \<Rightarrow> dict \<Rightarrow> (exn + string) \<times> world" where
  "get_completion v w model_id messages body =
     (case create v w
             \<lparr>kw_model = model_id,
              kw_messages = messages,
              kw_max_tokens = dict_get body ''max_tokens'' (PInt 1024),
              kw_temperature = dict_get body ''temperature'' (PFloat 1.0),
              kw_top_k = dict_get body ''top_k'' (PInt 40),
              kw_top_p = dict_get body ''top_p'' (PFloat 0.9),
              kw_stop_sequences = dict_get body ''stop'' (PList []),
              kw_stream = None\<rparr> of
        (Inl e, w') \<Rightarrow> (Inl e, w')
      | (Inr response, w') \<Rightarrow>
          (case content response of
             [] \<Rightarrow> (Inl (IndexError ''list index out of range''), w')
           | b # bs \<Rightarrow> (Inr (block_text b), w')))"

text \<open>
  A generator object. \<^verbatim>\<open>stream_response\<close> contains \<^verbatim>\<open>yield\<close>, so calling it runs none
  of its body: it returns a generator that holds the arguments. The body starts at the
  first \<^verbatim>\<open>next\<close>; after a \<^verbatim>\<open>yield\<close> the generator is suspended inside the loop, with the
  rest of the stream still to read.
\<close>

datatype generator =
    Created string "pyval list" dict
  | Suspended "stream_item list"
  | Finished

datatype step = Yield string | StopIteration | Raised exn

definition stream_response ::
  "world \<Rightarrow> string \<Rightarrow> pyval list \<Rightarrow> dict \<Rightarrow> generator \<times> world" where
  "stream_response w model_id messages body = (Created model_id messages body, w)"

text \<open>
  The loop \<^verbatim>\<open>for chunk in stream\<close>, run from where the generator stands until the next
  \<^verbatim>\<open>yield\<close>, the end of the stream or an exception.
\<close>

fun resume :: "stream_item list \<Rightarrow> step \<times> generator" where
  "resume [] = (StopIteration, Finished)"
| "resume (Failure e # rest) = (Raised e, Finished)"
| "resume (Event chunk # rest) =
     (if chunk_type chunk = ''content_block_start'' then
        (case content_block chunk of
           Inl e \<Rightarrow> (Raised e, Finished)
         | Inr b \<Rightarrow> (Yield (block_text b), Suspended rest))
      else if chunk_type chunk = ''content_block_delta'' then
        (case delta chunk of
           Inl e \<Rightarrow> (Raised e, Finished)
         | Inr d \<Rightarrow> (Yield (delta_text d), Suspended rest))
      else resume rest)"

text \<open>\<^verbatim>\<open>next(g)\<close> on the generator of \<^verbatim>\<open>stream_response\<close>.\<close>

definition gen_next :: "vendor \<Rightarrow> world \<Rightarrow> generator \<Rightarrow> (step \<times> generator) \<times> world" where
  "gen_next v w g =
     (case g of
        Created model_id messages body \<Rightarrow>
          (case create_stream v w
                  \<lparr>kw_model = model_id,
                   kw_messages = messages,
                   kw_max_tokens = dict_get body ''max_tokens'' (PInt 1024),
                   kw_temperature = dict_get body ''temperature'' (PFloat 1.0),
                   kw_top_k = dict_get body ''top_k'' (PInt 40),
                   kw_top_p = dict_get body ''top_p'' (PFloat 0.9),
                   kw_stop_sequences = dict_get body ''stop'' (PList []),
                   kw_stream = Some True\<rparr> of
             (Inl e, w') \<Rightarrow> ((Raised e, Finished), w')
           | (Inr stream, w') \<Rightarrow> (resume stream, w'))
      | Suspended stream \<Rightarrow> (resume stream, w)
      | Finished \<Rightarrow> ((StopIteration, Finished), w))"

text \<open>What \<^verbatim>\<open>pipe\<close> returns: a string or a generator.\<close>

datatype pipe_value = Str string | Gen generator

definition pipe ::
  "vendor \<Rightarrow> world \<Rightarrow> string \<Rightarrow> string \<Rightarrow> pyval list \<Rightarrow> dict \<Rightarrow> (exn + pipe_value) \<times> world" where
  "pipe v w user_message model_id messages body =
     (case (if truthy (dict_get body ''stream'' (PBool False)) then
              (case stream_response w model_id messages body of
                 (g, w') \<Rightarrow> (Inr (Gen g), w'))
            else
              (case get_completion v w model_id messages body of
                 (Inl e, w') \<Rightarrow> (Inl e, w')
               | (Inr s, w') \<Rightarrow> (Inr (Str s), w'))) of
        (Inl e, w') \<Rightarrow> if caught e then (Inr (Str (''Error: '' @ str e)), w') else (Inl e, w')
      | (Inr r, w') \<Rightarrow> (Inr r, w'))"

text \<open>
  Reading the generator to its end, as a \<^verbatim>\<open>for\<close> loop over it does: \<^verbatim>\<open>next\<close> is called
  until the generator stops or raises. The result is the list of the fragments it
  yielded, and the exception that ended it, if one did.
\<close>

fun rank :: "generator \<Rightarrow> nat \<times> nat" where
  "rank (Created model_id messages body) = (2, 0)"
| "rank (Suspended stream) = (1, length stream)"
| "rank Finished = (0, 0)"

function consume ::
  "vendor \<Rightarrow> world \<Rightarrow> generator \<Rightarrow> (string list \<times> exn option) \<times> world" where
  "consume v w g =
     (case gen_next v w g of
        ((Yield s, g'), w') \<Rightarrow>
          (case consume v w' g' of ((ss, r), w'') \<Rightarrow> ((s # ss, r), w''))
      | ((StopIteration, g'), w') \<Rightarrow> (([], None), w')
      | ((Raised e, g'), w') \<Rightarrow> (([], Some e), w'))"
  by pat_completeness auto
termination
proof (relation "inv_image (less_than <*lex*> less_than) (\<lambda>(v, w, g). rank g)")
  show "wf (inv_image (less_than <*lex*> less_than)
          (\<lambda>(v :: vendor, w :: world, g :: generator). rank g))"
    by (intro wf_inv_image wf_lex_prod wf_less_than)
next
  fix v :: vendor and w w' :: world and g g' :: generator and x1 x1a s
  assume "(x1, w') = gen_next v w g" "(x1a, g') = x1" "x1a = Yield s"
  then have next_yields: "gen_next v w g = ((Yield s, g'), w')"
    by simp
  have shorter: "\<exists>rest. h = Suspended rest \<and> length rest < length xs"
    if "resume xs = (Yield t, h)" for xs t h
    using that by (induction xs rule: resume.induct) (auto split: if_splits sum.splits)
  from next_yields have "(rank g', rank g) \<in> less_than <*lex*> less_than"
    by (auto simp: gen_next_def create_stream_def
             split: generator.splits sum.splits dest!: shorter)
  then show "((v, w', g'), v, w, g)
      \<in> inv_image (less_than <*lex*> less_than) (\<lambda>(v, w, g). rank g)"
    by simp
qed

declare consume.simps [simp del]

subsection \<open>The projection of the specification\<close>

text \<open>
  Following the words of the specification: a "content block start" event contributes its
  block's initial text, a "content block delta" event its incremental text, every other
  event nothing; the fragment sequence is this projection of the events, in order.
\<close>

fun spec_fragment :: "chunk \<Rightarrow> string option" where
  "spec_fragment (ContentBlockStartEvent b) = Some (block_text b)"
| "spec_fragment (ContentBlockDeltaEvent d) = Some (delta_text d)"
| "spec_fragment c = None"

definition spec_fragments :: "chunk list \<Rightarrow> string list" where
  "spec_fragments events = List.map_filter spec_fragment events"

subsection \<open>Fixtures\<close>

text \<open>
  The keyword arguments that the two call sites build from the arguments of \<^verbatim>\<open>pipe\<close>,
  written once for the statements below.
\<close>

abbreviation kwargs :: "string \<Rightarrow> pyval list \<Rightarrow> dict \<Rightarrow> bool option \<Rightarrow> request" where
  "kwargs model_id msgs body strm \<equiv>
     \<lparr>kw_model = model_id,
      kw_messages = msgs,
      kw_max_tokens = dict_get body ''max_tokens'' (PInt 1024),
      kw_temperature = dict_get body ''temperature'' (PFloat 1.0),
      kw_top_k = dict_get body ''top_k'' (PInt 40),
      kw_top_p = dict_get body ''top_p'' (PFloat 0.9),
      kw_stop_sequences = dict_get body ''stop'' (PList []),
      kw_stream = strm\<rparr>"

text \<open>
  A fake transport that answers every call with a canned two-part message and a canned
  event stream, one that fails every call with a given exception, a pipeline whose
  stored credential has changed since its client was built, and a message history.
\<close>

definition fake_events :: "chunk list" where
  "fake_events =
     [ContentBlockStartEvent \<lparr>block_text = []\<rparr>,
      ContentBlockDeltaEvent \<lparr>delta_text = ''Hel''\<rparr>,
      ContentBlockDeltaEvent \<lparr>delta_text = ''lo''\<rparr>,
      ContentBlockStopEvent]"

definition fake_vendor :: vendor where
  "fake_vendor =
     \<lparr>messages_create =
        (\<lambda>k r. Inr \<lparr>content = [\<lparr>block_text = ''Hello''\<rparr>, \<lparr>block_text = ''second part''\<rparr>]\<rparr>),
      messages_create_stream = (\<lambda>k r. Inr (map Event fake_events))\<rparr>"

definition failing_vendor :: "exn \<Rightarrow> vendor" where
  "failing_vendor e =
     \<lparr>messages_create = (\<lambda>k r. Inl e), messages_create_stream = (\<lambda>k r. Inl e)\<rparr>"

definition fake_world :: world where
  "fake_world =
     \<lparr>self = \<lparr>pipeline_type = ''manifold'', pipeline_id = ''anthropic'',
               pipeline_name = ''Anthropic/'',
               valves = \<lparr>ANTHROPIC_API_KEY = ''new-key''\<rparr>,
               client = Anthropic ''old-key''\<rparr>,
      calls = []\<rparr>"

definition fake_messages :: "pyval list" where
  "fake_messages = [PDict [(''role'', PStr ''user''), (''content'', PStr ''Hi'')]]"

definition fake_model :: string where
  "fake_model = ''claude-3-opus-20240229''"

text \<open>
  Option bags: one with no key, one that asks for streaming, one that sets every option
  the code reads, the same asking for streaming, one that uses the key
  \<^verbatim>\<open>stop_sequences\<close>, and one that uses only the key \<^verbatim>\<open>stop\<close>.
\<close>

definition empty_body :: dict where
  "empty_body = Map.empty"

definition stream_body :: dict where
  "stream_body = [''stream'' \<mapsto> PBool True]"

definition full_body :: dict where
  "full_body =
     [''max_tokens'' \<mapsto> PInt 256, ''temperature'' \<mapsto> PFloat 0.5, ''top_k'' \<mapsto> PInt 5,
      ''top_p'' \<mapsto> PFloat 0.25, ''stop'' \<mapsto> PList [PStr ''END'']]"

definition full_stream_body :: dict where
  "full_stream_body = full_body(''stream'' \<mapsto> PBool True)"

definition stop_sequences_body :: dict where
  "stop_sequences_body = [''stop_sequences'' \<mapsto> PList [PStr ''END'']]"

definition stop_body :: dict where
  "stop_body = [''stop'' \<mapsto> PList [PStr ''END'']]"

section \<open>Properties\<close>

subsection \<open>The two branches of \<^verbatim>\<open>pipe\<close>\<close>

lemma gen_next_Created:
  "gen_next v w (Created model_id msgs body) =
     (case messages_create_stream v (api_key (client (self w)))
             (kwargs model_id msgs body (Some True)) of
        Inl e \<Rightarrow> (Raised e, Finished)
      | Inr stream \<Rightarrow> resume stream,
      w\<lparr>calls := calls w @
          [(api_key (client (self w)), kwargs model_id msgs body (Some True))]\<rparr>)"
  by (simp add: gen_next_def create_stream_def split: sum.splits)

lemma gen_next_Suspended: "gen_next v w (Suspended stream) = (resume stream, w)"
  by (simp add: gen_next_def)

lemma gen_next_Finished: "gen_next v w Finished = ((StopIteration, Finished), w)"
  by (simp add: gen_next_def)

lemma pipe_stream:
  assumes "truthy (dict_get body ''stream'' (PBool False))"
  shows "pipe v w user_message model_id msgs body =
     (Inr (Gen (Created model_id msgs body)), w)"
  using assms by (simp add: pipe_def stream_response_def)

lemma pipe_completion:
  assumes "\<not> truthy (dict_get body ''stream'' (PBool False))"
  shows "pipe v w user_message model_id msgs body =
     (case messages_create v (api_key (client (self w))) (kwargs model_id msgs body None) of
        Inl e \<Rightarrow> if caught e then Inr (Str (''Error: '' @ str e)) else Inl e
      | Inr response \<Rightarrow>
          (case content response of
             [] \<Rightarrow> Inl (IndexError ''list index out of range'')
           | b # bs \<Rightarrow> Inr (Str (block_text b))),
      w\<lparr>calls := calls w @ [(api_key (client (self w)), kwargs model_id msgs body None)]\<rparr>)"
  using assms
  by (simp add: pipe_def get_completion_def create_def split: sum.splits list.splits)

subsection \<open>Reading a stream of events\<close>

lemma gen_next_skip:
  assumes "spec_fragment c = None"
  shows "gen_next v w (Suspended (Event c # rest)) = gen_next v w (Suspended rest)"
  using assms by (cases c) (simp_all add: gen_next_def)

lemma gen_next_fragment:
  assumes "spec_fragment c = Some t"
  shows "gen_next v w (Suspended (Event c # rest)) = ((Yield t, Suspended rest), w)"
  using assms by (cases c) (simp_all add: gen_next_def)

lemma consume_skip:
  assumes "spec_fragment c = None"
  shows "consume v w (Suspended (Event c # rest)) = consume v w (Suspended rest)"
  by (subst consume.simps, subst (2) consume.simps)
     (simp only: gen_next_skip [OF assms])

lemma consume_events:
  "consume v w (Suspended (map Event events)) = ((spec_fragments events, None), w)"
proof (induction events)
  case Nil
  show ?case
    by (subst consume.simps)
       (simp add: gen_next_def spec_fragments_def)
next
  case (Cons c events)
  show ?case
  proof (cases "spec_fragment c")
    case None
    with Cons show ?thesis
      by (simp add: consume_skip spec_fragments_def)
  next
    case (Some t)
    with Cons show ?thesis
      by (subst consume.simps)
         (simp add: gen_next_fragment spec_fragments_def)
  qed
qed

lemma consume_Created:
  assumes "messages_create_stream v (api_key (client (self w)))
             (kwargs model_id msgs body (Some True)) = Inr stream"
  shows "consume v w (Created model_id msgs body) =
     consume v
       (w\<lparr>calls := calls w @
           [(api_key (client (self w)), kwargs model_id msgs body (Some True))]\<rparr>)
       (Suspended stream)"
  by (subst consume.simps, subst (2) consume.simps)
     (simp only: gen_next_Created gen_next_Suspended assms sum.case)

text \<open>
  An exception raised when the stream is opened ends the generator at its first
  \<^verbatim>\<open>next\<close>, and one raised while the stream is read ends it there: both reach whoever
  reads the generator.
\<close>

lemma consume_open_error:
  assumes "messages_create_stream v (api_key (client (self w)))
             (kwargs model_id msgs body (Some True)) = Inl e"
  shows "fst (consume v w (Created model_id msgs body)) = ([], Some e)"
  by (subst consume.simps) (simp only: gen_next_Created assms sum.case prod.case step.case fst_conv)

lemma consume_midstream_error:
  "consume v w (Suspended (map Event events @ Failure e # rest))
     = ((spec_fragments events, Some e), w)"
proof (induction events)
  case Nil
  show ?case
    by (subst consume.simps)
       (simp add: gen_next_def spec_fragments_def)
next
  case (Cons c events)
  show ?case
  proof (cases "spec_fragment c")
    case None
    with Cons show ?thesis
      by (simp add: consume_skip spec_fragments_def)
  next
    case (Some t)
    with Cons show ?thesis
      by (subst consume.simps)
         (simp add: gen_next_fragment spec_fragments_def)
  qed
qed

subsection \<open>Fixtures, evaluated\<close>

lemma empty_body_not_stream: "\<not> truthy (dict_get empty_body ''stream'' (PBool False))"
  by (simp add: empty_body_def dict_get_def)

lemma full_body_not_stream: "\<not> truthy (dict_get full_body ''stream'' (PBool False))"
  by (simp add: full_body_def dict_get_def)

lemma stream_body_stream: "truthy (dict_get stream_body ''stream'' (PBool False))"
  by (simp add: stream_body_def dict_get_def)

lemma full_stream_body_stream: "truthy (dict_get full_stream_body ''stream'' (PBool False))"
  by (simp add: full_stream_body_def dict_get_def)

lemma fake_key: "api_key (client (self fake_world)) = ''old-key''"
  by (simp add: fake_world_def Anthropic_def)

subsection \<open>The claims\<close>

text \<open>
  C1. The claim: when a streaming request's vendor call raises a rate-limit, status or
  connection error as the stream is opened, \<^verbatim>\<open>pipe\<close> catches it and returns the string
  "Error: ...". The code does not do this. \<^verbatim>\<open>pipe\<close> returns the generator before any of
  the body of \<^verbatim>\<open>stream_response\<close> has run, so its \<^verbatim>\<open>try\<close> block is left before the vendor
  is called; the rate-limit error is raised by the first \<^verbatim>\<open>next\<close>, in the caller.
  Evaluated on a transport that answers every call with a rate-limit error.
\<close>

theorem stream_open_error_escapes_pipe:
  "pipe (failing_vendor (RateLimitError ''rate limited'')) fake_world ''Hi'' fake_model
       fake_messages stream_body
     = (Inr (Gen (Created fake_model fake_messages stream_body)), fake_world)
   \<and> fst (gen_next (failing_vendor (RateLimitError ''rate limited'')) fake_world
            (Created fake_model fake_messages stream_body))
     = (Raised (RateLimitError ''rate limited''), Finished)
   \<and> fst (consume (failing_vendor (RateLimitError ''rate limited'')) fake_world
            (Created fake_model fake_messages stream_body))
     = ([], Some (RateLimitError ''rate limited''))"
proof -
  have "messages_create_stream (failing_vendor (RateLimitError ''rate limited''))
          (api_key (client (self fake_world)))
          (kwargs fake_model fake_messages stream_body (Some True))
        = Inl (RateLimitError ''rate limited'')"
    by (simp add: failing_vendor_def)
  then show ?thesis
    by (simp add: pipe_stream stream_body_stream gen_next_Created consume_open_error)
qed

text \<open>
  C2, as stated: every recognized option of the bag, \<^verbatim>\<open>stop_sequences\<close> among them, is
  forwarded to the vendor parameter of the same meaning. A bag that supplies
  \<^verbatim>\<open>stop_sequences\<close> refutes it: the call goes out with an empty list of stop sequences.
\<close>

theorem stop_sequences_key_not_forwarded:
  "stop_sequences_body ''stop_sequences'' = Some (PList [PStr ''END''])
   \<and> calls (snd (pipe fake_vendor fake_world ''Hi'' fake_model fake_messages
                 stop_sequences_body))
     = [(''old-key'',
         \<lparr>kw_model = fake_model, kw_messages = fake_messages,
          kw_max_tokens = PInt 1024, kw_temperature = PFloat 1.0,
          kw_top_k = PInt 40, kw_top_p = PFloat 0.9,
          kw_stop_sequences = PList [], kw_stream = None\<rparr>)]"
proof -
  have "\<not> truthy (dict_get stop_sequences_body ''stream'' (PBool False))"
    by (simp add: stop_sequences_body_def dict_get_def)
  then show ?thesis
    by (simp add: pipe_completion fake_key)
       (simp add: stop_sequences_body_def dict_get_def fake_world_def)
qed

text \<open>
  C2, amended: the model id, the messages and the options \<^verbatim>\<open>max_tokens\<close>,
  \<^verbatim>\<open>temperature\<close>, \<^verbatim>\<open>top_k\<close> and \<^verbatim>\<open>top_p\<close> of the bag are forwarded unchanged to the vendor
  parameters of the same name, each with its default when the bag lacks it, and the
  vendor parameter \<^verbatim>\<open>stop_sequences\<close> is the value of the bag's key \<^verbatim>\<open>stop\<close>, the empty
  list when the bag lacks that key. This holds for the single-shot call, which \<^verbatim>\<open>pipe\<close>
  issues itself, and for the streaming call, which the first \<^verbatim>\<open>next\<close> on the returned
  generator issues.
\<close>

theorem pipe_forwards_options:
  "(\<not> truthy (case body ''stream'' of None \<Rightarrow> PBool False | Some x \<Rightarrow> x) \<longrightarrow>
      calls (snd (pipe v w user_message model_id msgs body))
        = calls w @
          [(api_key (client (self w)),
            \<lparr>kw_model = model_id, kw_messages = msgs,
             kw_max_tokens = (case body ''max_tokens'' of None \<Rightarrow> PInt 1024 | Some x \<Rightarrow> x),
             kw_temperature = (case body ''temperature'' of None \<Rightarrow> PFloat 1.0 | Some x \<Rightarrow> x),
             kw_top_k = (case body ''top_k'' of None \<Rightarrow> PInt 40 | Some x \<Rightarrow> x),
             kw_top_p = (case body ''top_p'' of None \<Rightarrow> PFloat 0.9 | Some x \<Rightarrow> x),
             kw_stop_sequences = (case body ''stop'' of None \<Rightarrow> PList [] | Some x \<Rightarrow> x),
             kw_stream = None\<rparr>)])
   \<and> (truthy (case body ''stream'' of None \<Rightarrow> PBool False | Some x \<Rightarrow> x) \<longrightarrow>
      pipe v w user_message model_id msgs body
        = (Inr (Gen (Created model_id msgs body)), w)
      \<and> calls (snd (gen_next v w (Created model_id msgs body)))
        = calls w @
          [(api_key (client (self w)),
            \<lparr>kw_model = model_id, kw_messages = msgs,
             kw_max_tokens = (case body ''max_tokens'' of None \<Rightarrow> PInt 1024 | Some x \<Rightarrow> x),
             kw_temperature = (case body ''temperature'' of None \<Rightarrow> PFloat 1.0 | Some x \<Rightarrow> x),
             kw_top_k = (case body ''top_k'' of None \<Rightarrow> PInt 40 | Some x \<Rightarrow> x),
             kw_top_p = (case body ''top_p'' of None \<Rightarrow> PFloat 0.9 | Some x \<Rightarrow> x),
             kw_stop_sequences = (case body ''stop'' of None \<Rightarrow> PList [] | Some x \<Rightarrow> x),
             kw_stream = Some True\<rparr>)])"
proof (intro conjI impI)
  assume "\<not> truthy (case body ''stream'' of None \<Rightarrow> PBool False | Some x \<Rightarrow> x)"
  then have "\<not> truthy (dict_get body ''stream'' (PBool False))"
    by (simp add: dict_get_def)
  then show "calls (snd (pipe v w user_message model_id msgs body))
        = calls w @
          [(api_key (client (self w)),
            \<lparr>kw_model = model_id, kw_messages = msgs,
             kw_max_tokens = (case body ''max_tokens'' of None \<Rightarrow> PInt 1024 | Some x \<Rightarrow> x),
             kw_temperature = (case body ''temperature'' of None \<Rightarrow> PFloat 1.0 | Some x \<Rightarrow> x),
             kw_top_k = (case body ''top_k'' of None \<Rightarrow> PInt 40 | Some x \<Rightarrow> x),
             kw_top_p = (case body ''top_p'' of None \<Rightarrow> PFloat 0.9 | Some x \<Rightarrow> x),
             kw_stop_sequences = (case body ''stop'' of None \<Rightarrow> PList [] | Some x \<Rightarrow> x),
             kw_stream = None\<rparr>)]"
    by (simp add: pipe_completion) (simp add: dict_get_def split: option.splits)
next
  assume "truthy (case body ''stream'' of None \<Rightarrow> PBool False | Some x \<Rightarrow> x)"
  then have strm: "truthy (dict_get body ''stream'' (PBool False))"
    by (simp add: dict_get_def)
  then show "pipe v w user_message model_id msgs body
        = (Inr (Gen (Created model_id msgs body)), w)"
    by (rule pipe_stream)
  show "calls (snd (gen_next v w (Created model_id msgs body)))
        = calls w @
          [(api_key (client (self w)),
            \<lparr>kw_model = model_id, kw_messages = msgs,
             kw_max_tokens = (case body ''max_tokens'' of None \<Rightarrow> PInt 1024 | Some x \<Rightarrow> x),
             kw_temperature = (case body ''temperature'' of None \<Rightarrow> PFloat 1.0 | Some x \<Rightarrow> x),
             kw_top_k = (case body ''top_k'' of None \<Rightarrow> PInt 40 | Some x \<Rightarrow> x),
             kw_top_p = (case body ''top_p'' of None \<Rightarrow> PFloat 0.9 | Some x \<Rightarrow> x),
             kw_stop_sequences = (case body ''stop'' of None \<Rightarrow> PList [] | Some x \<Rightarrow> x),
             kw_stream = Some True\<rparr>)]"
    by (simp add: gen_next_Created) (simp add: dict_get_def split: option.splits)
qed

theorem pipe_forwards_options_witness:
  "calls (snd (pipe fake_vendor fake_world ''Hi'' fake_model fake_messages full_body))
     = [(''old-key'',
         \<lparr>kw_model = fake_model, kw_messages = fake_messages,
          kw_max_tokens = PInt 256, kw_temperature = PFloat 0.5,
          kw_top_k = PInt 5, kw_top_p = PFloat 0.25,
          kw_stop_sequences = PList [PStr ''END''], kw_stream = None\<rparr>)]
   \<and> pipe fake_vendor fake_world ''Hi'' fake_model fake_messages full_stream_body
     = (Inr (Gen (Created fake_model fake_messages full_stream_body)), fake_world)
   \<and> calls (snd (gen_next fake_vendor fake_world
                   (Created fake_model fake_messages full_stream_body)))
     = [(''old-key'',
         \<lparr>kw_model = fake_model, kw_messages = fake_messages,
          kw_max_tokens = PInt 256, kw_temperature = PFloat 0.5,
          kw_top_k = PInt 5, kw_top_p = PFloat 0.25,
          kw_stop_sequences = PList [PStr ''END''], kw_stream = Some True\<rparr>)]"
proof -
  have single: "\<not> truthy (case full_body ''stream'' of None \<Rightarrow> PBool False | Some x \<Rightarrow> x)"
    by (simp add: full_body_def)
  have streaming:
    "truthy (case full_stream_body ''stream'' of None \<Rightarrow> PBool False | Some x \<Rightarrow> x)"
    by (simp add: full_stream_body_def)
  have "calls fake_world = []"
    by (simp add: fake_world_def)
  with single streaming
    pipe_forwards_options [of full_body fake_vendor fake_world "''Hi''" fake_model fake_messages]
    pipe_forwards_options [of full_stream_body fake_vendor fake_world "''Hi''" fake_model
      fake_messages]
  show ?thesis
    by (simp add: fake_key) (simp add: full_body_def full_stream_body_def)
qed

text \<open>
  C3. For a streaming request whose stream delivers the events \<open>events\<close>, the fragments
  that the returned generator yields, read to its end, are in order the projection of the
  specification: the initial text of each "content block start" event, the incremental
  text of each "content block delta" event, nothing for any other event; the generator
  then stops without an exception.
\<close>

theorem stream_fragments_are_projection:
  assumes "truthy (dict_get body ''stream'' (PBool False))"
    and "messages_create_stream v (api_key (client (self w)))
           (kwargs model_id msgs body (Some True)) = Inr (map Event events)"
  shows "pipe v w user_message model_id msgs body
           = (Inr (Gen (Created model_id msgs body)), w)
         \<and> fst (consume v w (Created model_id msgs body)) = (spec_fragments events, None)"
  using assms by (simp add: pipe_stream consume_Created consume_events)

theorem stream_fragments_are_projection_witness:
  "truthy (dict_get stream_body ''stream'' (PBool False))
   \<and> fake_events =
       [ContentBlockStartEvent \<lparr>block_text = []\<rparr>,
        ContentBlockDeltaEvent \<lparr>delta_text = ''Hel''\<rparr>,
        ContentBlockDeltaEvent \<lparr>delta_text = ''lo''\<rparr>,
        ContentBlockStopEvent]
   \<and> pipe fake_vendor fake_world ''Hi'' fake_model fake_messages stream_body
       = (Inr (Gen (Created fake_model fake_messages stream_body)), fake_world)
   \<and> fst (consume fake_vendor fake_world (Created fake_model fake_messages stream_body))
       = ([[], ''Hel'', ''lo''], None)"
proof -
  have opened: "messages_create_stream fake_vendor (api_key (client (self fake_world)))
      (kwargs fake_model fake_messages stream_body (Some True)) = Inr (map Event fake_events)"
    by (simp add: fake_vendor_def)
  have "spec_fragments fake_events = [[], ''Hel'', ''lo'']"
    by (simp add: spec_fragments_def fake_events_def)
  with stream_fragments_are_projection [OF stream_body_stream opened, of "''Hi''"]
  show ?thesis
    by (simp add: stream_body_stream fake_events_def)
qed

text \<open>
  C4. For a non-streaming request that the vendor answers with a message whose content
  list is not empty, \<^verbatim>\<open>pipe\<close> returns the text of the first content element, whatever
  elements follow it.
\<close>

theorem completion_returns_first_text:
  assumes "\<not> truthy (dict_get body ''stream'' (PBool False))"
    and "messages_create v (api_key (client (self w)))
           (kwargs model_id msgs body None) = Inr response"
    and "content response = b # bs"
  shows "fst (pipe v w user_message model_id msgs body) = Inr (Str (block_text b))"
  using assms by (simp add: pipe_completion)

theorem completion_returns_first_text_witness:
  "\<not> truthy (dict_get empty_body ''stream'' (PBool False))
   \<and> messages_create fake_vendor (api_key (client (self fake_world)))
       (kwargs fake_model fake_messages empty_body None)
       = Inr \<lparr>content = [\<lparr>block_text = ''Hello''\<rparr>, \<lparr>block_text = ''second part''\<rparr>]\<rparr>
   \<and> fst (pipe fake_vendor fake_world ''Hi'' fake_model fake_messages empty_body)
       = Inr (Str ''Hello'')"
proof -
  have answered: "messages_create fake_vendor (api_key (client (self fake_world)))
      (kwargs fake_model fake_messages empty_body None)
      = Inr \<lparr>content = [\<lparr>block_text = ''Hello''\<rparr>, \<lparr>block_text = ''second part''\<rparr>]\<rparr>"
    by (simp add: fake_vendor_def)
  have parts: "content \<lparr>content = [\<lparr>block_text = ''Hello''\<rparr>, \<lparr>block_text = ''second part''\<rparr>]\<rparr>
      = \<lparr>block_text = ''Hello''\<rparr> # [\<lparr>block_text = ''second part''\<rparr>]"
    by simp
  from completion_returns_first_text [OF empty_body_not_stream answered parts, of "''Hi''"]
  show ?thesis
    using answered by (simp add: empty_body_not_stream)
qed

text \<open>
  C5. For a non-streaming request whose vendor call raises \<open>e\<close>: if \<open>e\<close> is a rate-limit,
  status or connection error with message \<open>m\<close>, \<^verbatim>\<open>pipe\<close> returns the string "Error: "
  followed by \<open>m\<close> and raises nothing; if \<open>e\<close> is of no such class, \<^verbatim>\<open>pipe\<close> raises \<open>e\<close>
  itself.
\<close>

theorem completion_errors:
  assumes "\<not> truthy (dict_get body ''stream'' (PBool False))"
    and "messages_create v (api_key (client (self w)))
           (kwargs model_id msgs body None) = Inl e"
  shows "(e = RateLimitError m \<or> e = APIStatusError m \<or> e = APIConnectionError m \<longrightarrow>
            fst (pipe v w user_message model_id msgs body) = Inr (Str (''Error: '' @ m)))
         \<and> ((\<forall>m'. e \<noteq> RateLimitError m' \<and> e \<noteq> APIStatusError m' \<and> e \<noteq> APIConnectionError m')
              \<longrightarrow> fst (pipe v w user_message model_id msgs body) = Inl e)"
proof (intro conjI impI)
  assume "e = RateLimitError m \<or> e = APIStatusError m \<or> e = APIConnectionError m"
  then have "caught e \<and> str e = m"
    by auto
  with assms show "fst (pipe v w user_message model_id msgs body) = Inr (Str (''Error: '' @ m))"
    by (simp add: pipe_completion)
next
  assume "\<forall>m'. e \<noteq> RateLimitError m' \<and> e \<noteq> APIStatusError m' \<and> e \<noteq> APIConnectionError m'"
  then have "\<not> caught e"
    by (cases e) auto
  with assms show "fst (pipe v w user_message model_id msgs body) = Inl e"
    by (simp add: pipe_completion)
qed

theorem completion_errors_witness:
  "\<not> truthy (dict_get empty_body ''stream'' (PBool False))
   \<and> fst (pipe (failing_vendor (RateLimitError ''rate limited'')) fake_world ''Hi''
            fake_model fake_messages empty_body)
       = Inr (Str ''Error: rate limited'')
   \<and> fst (pipe (failing_vendor (APIStatusError ''bad request'')) fake_world ''Hi''
            fake_model fake_messages empty_body)
       = Inr (Str ''Error: bad request'')
   \<and> fst (pipe (failing_vendor (APIConnectionError ''Connection error.'')) fake_world ''Hi''
            fake_model fake_messages empty_body)
       = Inr (Str ''Error: Connection error.'')
   \<and> fst (pipe (failing_vendor (OtherException ''TypeError'' ''bad argument'')) fake_world
            ''Hi'' fake_model fake_messages empty_body)
       = Inl (OtherException ''TypeError'' ''bad argument'')"
proof -
  have fails: "messages_create (failing_vendor e) (api_key (client (self fake_world)))
      (kwargs fake_model fake_messages empty_body None) = Inl e" for e
    by (simp add: failing_vendor_def)
  from
    completion_errors [OF empty_body_not_stream fails, of "RateLimitError ''rate limited''"
      "''rate limited''" "''Hi''"]
    completion_errors [OF empty_body_not_stream fails, of "APIStatusError ''bad request''"
      "''bad request''" "''Hi''"]
    completion_errors [OF empty_body_not_stream fails,
      of "APIConnectionError ''Connection error.''" "''Connection error.''" "''Hi''"]
    completion_errors [OF empty_body_not_stream fails,
      of "OtherException ''TypeError'' ''bad argument''" "[]" "''Hi''"]
  show ?thesis
    by (simp add: empty_body_not_stream)
qed

text \<open>
  C6, as stated: when the option bag omits all optional fields, which the specification
  lists as \<^verbatim>\<open>max_tokens\<close>, \<^verbatim>\<open>temperature\<close>, \<^verbatim>\<open>top_k\<close>, \<^verbatim>\<open>top_p\<close>, \<^verbatim>\<open>stop_sequences\<close>
  and \<^verbatim>\<open>stream\<close>, the call goes out with the defaults, \<^verbatim>\<open>stop_sequences=[]\<close> among them.
  A bag that holds only the key \<^verbatim>\<open>stop\<close> omits all six and refutes it: the call goes
  out with the stop sequences stored under \<^verbatim>\<open>stop\<close>.
\<close>

theorem stop_key_overrides_default:
  "stop_body ''max_tokens'' = None \<and> stop_body ''temperature'' = None
   \<and> stop_body ''top_k'' = None \<and> stop_body ''top_p'' = None
   \<and> stop_body ''stop_sequences'' = None \<and> stop_body ''stream'' = None
   \<and> calls (snd (pipe fake_vendor fake_world ''Hi'' fake_model fake_messages stop_body))
       = [(''old-key'',
           \<lparr>kw_model = fake_model, kw_messages = fake_messages,
            kw_max_tokens = PInt 1024, kw_temperature = PFloat 1.0,
            kw_top_k = PInt 40, kw_top_p = PFloat 0.9,
            kw_stop_sequences = PList [PStr ''END''], kw_stream = None\<rparr>)]"
proof -
  have "\<not> truthy (dict_get stop_body ''stream'' (PBool False))"
    by (simp add: stop_body_def dict_get_def)
  then show ?thesis
    by (simp add: pipe_completion fake_key)
       (simp add: stop_body_def dict_get_def fake_world_def)
qed

text \<open>
  C6, amended: when the option bag has none of the keys that the code reads, which are
  \<^verbatim>\<open>max_tokens\<close>, \<^verbatim>\<open>temperature\<close>, \<^verbatim>\<open>top_k\<close>, \<^verbatim>\<open>top_p\<close>, \<^verbatim>\<open>stop\<close> and \<^verbatim>\<open>stream\<close>, \<^verbatim>\<open>pipe\<close>
  itself issues exactly one vendor call, with \<^verbatim>\<open>max_tokens=1024\<close>, \<^verbatim>\<open>temperature=1.0\<close>,
  \<^verbatim>\<open>top_k=40\<close>, \<^verbatim>\<open>top_p=0.9\<close>, \<^verbatim>\<open>stop_sequences=[]\<close> and no \<^verbatim>\<open>stream\<close> keyword, and what
  it returns is no generator: the single-shot mode is selected.
\<close>

theorem defaults_forwarded:
  assumes "body ''max_tokens'' = None" and "body ''temperature'' = None"
    and "body ''top_k'' = None" and "body ''top_p'' = None"
    and "body ''stop'' = None" and "body ''stream'' = None"
  shows "calls (snd (pipe v w user_message model_id msgs body))
           = calls w @
             [(api_key (client (self w)),
               \<lparr>kw_model = model_id, kw_messages = msgs,
                kw_max_tokens = PInt 1024, kw_temperature = PFloat 1.0,
                kw_top_k = PInt 40, kw_top_p = PFloat 0.9,
                kw_stop_sequences = PList [], kw_stream = None\<rparr>)]
         \<and> (\<forall>g. fst (pipe v w user_message model_id msgs body) \<noteq> Inr (Gen g))"
proof -
  from assms have single: "\<not> truthy (dict_get body ''stream'' (PBool False))"
    by (simp add: dict_get_def)
  have "fst (pipe v w user_message model_id msgs body) \<noteq> Inr (Gen g)" for g
    by (simp add: pipe_completion [OF single] split: sum.splits list.splits)
  moreover have "calls (snd (pipe v w user_message model_id msgs body))
           = calls w @
             [(api_key (client (self w)),
               \<lparr>kw_model = model_id, kw_messages = msgs,
                kw_max_tokens = PInt 1024, kw_temperature = PFloat 1.0,
                kw_top_k = PInt 40, kw_top_p = PFloat 0.9,
                kw_stop_sequences = PList [], kw_stream = None\<rparr>)]"
    using assms by (simp add: pipe_completion [OF single]) (simp add: dict_get_def)
  ultimately show ?thesis
    by blast
qed

theorem defaults_forwarded_witness:
  "empty_body ''max_tokens'' = None \<and> empty_body ''temperature'' = None
   \<and> empty_body ''top_k'' = None \<and> empty_body ''top_p'' = None
   \<and> empty_body ''stop'' = None \<and> empty_body ''stream'' = None
   \<and> calls (snd (pipe fake_vendor fake_world ''Hi'' fake_model fake_messages empty_body))
       = [(''old-key'',
           \<lparr>kw_model = fake_model, kw_messages = fake_messages,
            kw_max_tokens = PInt 1024, kw_temperature = PFloat 1.0,
            kw_top_k = PInt 40, kw_top_p = PFloat 0.9,
            kw_stop_sequences = PList [], kw_stream = None\<rparr>)]
   \<and> fst (pipe fake_vendor fake_world ''Hi'' fake_model fake_messages empty_body)
       \<noteq> Inr (Gen (Created fake_model fake_messages empty_body))"
proof -
  have absent: "empty_body ''max_tokens'' = None" "empty_body ''temperature'' = None"
    "empty_body ''top_k'' = None" "empty_body ''top_p'' = None"
    "empty_body ''stop'' = None" "empty_body ''stream'' = None"
    by (simp_all add: empty_body_def)
  have "calls fake_world = []"
    by (simp add: fake_world_def)
  with defaults_forwarded [OF absent, of fake_vendor fake_world "''Hi''" fake_model
      fake_messages] absent
  show ?thesis
    by (simp add: fake_key)
qed

text \<open>
  C7. \<^verbatim>\<open>pipelines\<close> returns the same three descriptors, in the same order, in every state,
  and leaves the state as it was; in particular it returns them after a call of \<^verbatim>\<open>pipe\<close>,
  after a \<^verbatim>\<open>next\<close> on a generator and after \<^verbatim>\<open>on_valves_update\<close>.
\<close>

theorem pipelines_fixed:
  "pipelines w =
     ([PDict [(''id'', PStr ''claude-3-haiku-20240307''), (''name'', PStr ''claude-3-haiku'')],
       PDict [(''id'', PStr ''claude-3-opus-20240229''), (''name'', PStr ''claude-3-opus'')],
       PDict [(''id'', PStr ''claude-3-sonnet-20240229''), (''name'', PStr ''claude-3-sonnet'')]],
      w)
   \<and> fst (pipelines (snd (pipe v w user_message model_id msgs body))) = fst (pipelines w)
   \<and> fst (pipelines (snd (gen_next v w g))) = fst (pipelines w)
   \<and> fst (pipelines (on_valves_update w)) = fst (pipelines w)"
  by (simp add: pipelines_def get_anthropic_models_def)

text \<open>
  C8. In every state, \<^verbatim>\<open>on_valves_update\<close> replaces the client by one built from the
  credential now stored in the valves, so that the next vendor call, single-shot or
  streaming, goes out with that credential. The valves, the other attributes of the
  pipeline and the calls already made stay as they were, and \<^verbatim>\<open>pipelines\<close> returns what
  it returned before.
\<close>

theorem credential_update:
  "client (self (on_valves_update w)) = Anthropic (ANTHROPIC_API_KEY (valves (self w)))
   \<and> (\<not> truthy (dict_get body ''stream'' (PBool False)) \<longrightarrow>
        calls (snd (pipe v (on_valves_update w) user_message model_id msgs body))
          = calls w @
            [(ANTHROPIC_API_KEY (valves (self w)), kwargs model_id msgs body None)])
   \<and> (truthy (dict_get body ''stream'' (PBool False)) \<longrightarrow>
        pipe v (on_valves_update w) user_message model_id msgs body
          = (Inr (Gen (Created model_id msgs body)), on_valves_update w)
        \<and> calls (snd (gen_next v (on_valves_update w) (Created model_id msgs body)))
          = calls w @
            [(ANTHROPIC_API_KEY (valves (self w)), kwargs model_id msgs body (Some True))])
   \<and> valves (self (on_valves_update w)) = valves (self w)
   \<and> pipeline_type (self (on_valves_update w)) = pipeline_type (self w)
   \<and> pipeline_id (self (on_valves_update w)) = pipeline_id (self w)
   \<and> pipeline_name (self (on_valves_update w)) = pipeline_name (self w)
   \<and> calls (on_valves_update w) = calls w
   \<and> fst (pipelines (on_valves_update w)) = fst (pipelines w)"
proof -
  have key: "api_key (client (self (on_valves_update w))) = ANTHROPIC_API_KEY (valves (self w))"
    by (simp add: on_valves_update_def Anthropic_def)
  have log: "calls (on_valves_update w) = calls w"
    by (simp add: on_valves_update_def)
  have single: "calls (snd (pipe v (on_valves_update w) user_message model_id msgs body))
          = calls w @
            [(ANTHROPIC_API_KEY (valves (self w)), kwargs model_id msgs body None)]"
    if "\<not> truthy (dict_get body ''stream'' (PBool False))"
    by (simp add: pipe_completion [OF that] key log)
  have streaming: "calls (snd (gen_next v (on_valves_update w) (Created model_id msgs body)))
          = calls w @
            [(ANTHROPIC_API_KEY (valves (self w)), kwargs model_id msgs body (Some True))]"
    by (simp add: gen_next_Created key log)
  have frame: "client (self (on_valves_update w)) = Anthropic (ANTHROPIC_API_KEY (valves (self w)))
     \<and> valves (self (on_valves_update w)) = valves (self w)
     \<and> pipeline_type (self (on_valves_update w)) = pipeline_type (self w)
     \<and> pipeline_id (self (on_valves_update w)) = pipeline_id (self w)
     \<and> pipeline_name (self (on_valves_update w)) = pipeline_name (self w)"
    by (simp add: on_valves_update_def)
  have models: "fst (pipelines (on_valves_update w)) = fst (pipelines w)"
    by (simp add: pipelines_def get_anthropic_models_def)
  from single streaming frame models log show ?thesis
    by (simp add: pipe_stream)
qed

theorem credential_update_witness:
  "ANTHROPIC_API_KEY (valves (self fake_world)) = ''new-key''
   \<and> api_key (client (self fake_world)) = ''old-key''
   \<and> client (self (on_valves_update fake_world)) = Anthropic ''new-key''
   \<and> \<not> truthy (dict_get empty_body ''stream'' (PBool False))
   \<and> calls (snd (pipe fake_vendor (on_valves_update fake_world) ''Hi'' fake_model
                   fake_messages empty_body))
       = [(''new-key'', kwargs fake_model fake_messages empty_body None)]
   \<and> truthy (dict_get stream_body ''stream'' (PBool False))
   \<and> calls (snd (gen_next fake_vendor (on_valves_update fake_world)
                   (Created fake_model fake_messages stream_body)))
       = [(''new-key'', kwargs fake_model fake_messages stream_body (Some True))]
   \<and> fst (pipelines (on_valves_update fake_world)) = fst (pipelines fake_world)"
proof -
  have stored: "ANTHROPIC_API_KEY (valves (self fake_world)) = ''new-key''"
    and log: "calls fake_world = []"
    by (simp_all add: fake_world_def)
  from
    credential_update [of fake_world empty_body fake_vendor "''Hi''" fake_model fake_messages]
    credential_update [of fake_world stream_body fake_vendor "''Hi''" fake_model fake_messages]
  show ?thesis
    by (simp add: stored log fake_key empty_body_not_stream stream_body_stream)
qed

text \<open>
  C9. For a streaming request, \<^verbatim>\<open>pipe\<close> returns the generator not yet started and leaves
  the state as it was: no vendor call is made. The first \<^verbatim>\<open>next\<close> on that generator
  issues the streaming call; a \<^verbatim>\<open>next\<close> on a generator that is suspended or finished
  issues none.
\<close>

theorem stream_call_deferred:
  assumes "truthy (dict_get body ''stream'' (PBool False))"
  shows "pipe v w user_message model_id msgs body
           = (Inr (Gen (Created model_id msgs body)), w)
         \<and> calls (snd (pipe v w user_message model_id msgs body)) = calls w
         \<and> calls (snd (gen_next v w (Created model_id msgs body)))
             = calls w @
               [(api_key (client (self w)), kwargs model_id msgs body (Some True))]
         \<and> snd (gen_next v w (Suspended stream)) = w
         \<and> snd (gen_next v w Finished) = w"
  using assms
  by (simp add: pipe_stream gen_next_Created gen_next_Suspended gen_next_Finished)

theorem stream_call_deferred_witness:
  "truthy (dict_get stream_body ''stream'' (PBool False))
   \<and> pipe fake_vendor fake_world ''Hi'' fake_model fake_messages stream_body
       = (Inr (Gen (Created fake_model fake_messages stream_body)), fake_world)
   \<and> calls (snd (pipe fake_vendor fake_world ''Hi'' fake_model fake_messages stream_body))
       = []
   \<and> calls (snd (gen_next fake_vendor fake_world
                   (Created fake_model fake_messages stream_body)))
       = [(''old-key'', kwargs fake_model fake_messages stream_body (Some True))]"
proof -
  have log: "calls fake_world = []"
    by (simp add: fake_world_def)
  from stream_call_deferred [OF stream_body_stream,
      of fake_vendor fake_world "''Hi''" fake_model fake_messages]
  show ?thesis
    by (simp add: stream_body_stream log fake_key)
qed

text \<open>
  C10. Two calls of \<^verbatim>\<open>pipe\<close> that differ only in \<^verbatim>\<open>user_message\<close> return the same value
  and leave the same state, and so the same vendor calls, behind.
\<close>

theorem pipe_ignores_user_message:
  "pipe v w user_message model_id msgs body = pipe v w user_message' model_id msgs body"
  by (simp add: pipe_def)

end
